theory Spec2Isabelle
  imports Complex_Main "HOL-Library.Sublist" "HOL-Library.List_Lexorder" "HOL-Library.Char_ord"
begin

section \<open>Numbers and rounding\<close>

text \<open>
  The program computes with Python floats. They are modelled as mathematical reals:
  every arithmetic operation is the exact one, so rounding error, overflow and NaN of
  IEEE doubles are outside this development. The only rounding that is modelled is the
  explicit one the program asks for with \<^verbatim>\<open>round(x, ndigits)\<close>, which rounds to the
  nearest multiple of \<open>10 ^ (- ndigits)\<close> and resolves ties to the even neighbour.
\<close>

type_synonym pyfloat = real

definition round_half_even :: "real \<Rightarrow> int" where
  "round_half_even x =
     (let f = \<lfloor>x\<rfloor>; d = x - of_int f
      in if d < 1 / 2 then f
         else if 1 / 2 < d then f + 1
         else if even f then f else f + 1)"

definition py_round :: "pyfloat \<Rightarrow> int \<Rightarrow> pyfloat" where
  "py_round x ndigits =
     (if 0 \<le> ndigits
      then of_int (round_half_even (x * 10 ^ nat ndigits)) / 10 ^ nat ndigits
      else of_int (round_half_even (x / 10 ^ nat (- ndigits))) * 10 ^ nat (- ndigits))"

datatype py_error = IndexError | KeyError | StatisticsError | ValueError

section \<open>financials.py: market constants\<close>

text \<open>The entries of \<^verbatim>\<open>FIXED_COSTS_UF\<close> and \<^verbatim>\<open>MARKET_RATES\<close> that the calculator reads.\<close>

definition FIXED_tasacion :: pyfloat where "FIXED_tasacion = 3"
definition FIXED_estudio_titulos :: pyfloat where "FIXED_estudio_titulos = 5"
definition FIXED_borrador_escritura :: pyfloat where "FIXED_borrador_escritura = 3"
definition FIXED_notaria :: pyfloat where "FIXED_notaria = 4"

definition RATE_impuesto_mutuo :: pyfloat where "RATE_impuesto_mutuo = 8 / 1000"
definition RATE_cbrs_rate :: pyfloat where "RATE_cbrs_rate = 5 / 1000"
definition RATE_cbrs_tope_uf :: pyfloat where "RATE_cbrs_tope_uf = 50"
definition RATE_corretaje_rate :: pyfloat where "RATE_corretaje_rate = 2 / 100"
definition RATE_iva :: pyfloat where "RATE_iva = 19 / 100"
definition RATE_contribuciones_annual :: pyfloat where "RATE_contribuciones_annual = 75 / 10000"
definition RATE_desgravamen_monthly :: pyfloat where "RATE_desgravamen_monthly = 25 / 100000"
definition RATE_incendio_sismo_monthly :: pyfloat where "RATE_incendio_sismo_monthly = 2 / 10000"

section \<open>financials.py: data classes\<close>

text \<open>
  \<^verbatim>\<open>CurrencyRates\<close> is a plain \<^verbatim>\<open>@dataclass\<close>: the generated constructor
  stores its four arguments and has no \<^verbatim>\<open>__post_init__\<close>. The timestamp
  \<^verbatim>\<open>fecha\<close> is kept as a number.
\<close>

record CurrencyRates =
  uf_clp :: pyfloat
  eur_clp :: pyfloat
  usd_clp :: pyfloat
  fecha :: nat

definition CurrencyRates_init ::
  "pyfloat \<Rightarrow> pyfloat \<Rightarrow> pyfloat \<Rightarrow> nat \<Rightarrow> py_error + CurrencyRates" where
  "CurrencyRates_init uf eur usd t =
     Inr \<lparr>uf_clp = uf, eur_clp = eur, usd_clp = usd, fecha = t\<rparr>"

record PropertyInput =
  precio_uf :: pyfloat
  arriendo_clp :: pyfloat
  gastos_comunes_clp :: pyfloat
  superficie_m2 :: pyfloat
  comuna :: string
  url :: string

record MortgageInput =
  pie_percent :: pyfloat
  tasa_anual :: pyfloat
  plazo_anos :: int

record OperatingInput =
  vacancy_rate :: pyfloat
  property_mgmt_rate :: pyfloat
  maintenance_rate :: pyfloat
  plusvalia_annual :: pyfloat

record CapexBreakdown =
  pie_uf :: pyfloat
  impuesto_mutuo_uf :: pyfloat
  tasacion_uf :: pyfloat
  estudio_titulos_uf :: pyfloat
  borrador_escritura_uf :: pyfloat
  notaria_uf :: pyfloat
  cbrs_uf :: pyfloat
  corretaje_uf :: pyfloat

definition total_uf :: "CapexBreakdown \<Rightarrow> pyfloat" where
  "total_uf c =
     pie_uf c + impuesto_mutuo_uf c + tasacion_uf c + estudio_titulos_uf c
     + borrador_escritura_uf c + notaria_uf c + cbrs_uf c + corretaje_uf c"

record MortgagePayment =
  cuota_base_uf :: pyfloat
  seguro_desgravamen_uf :: pyfloat
  seguro_incendio_uf :: pyfloat

definition dividendo_total_uf :: "MortgagePayment \<Rightarrow> pyfloat" where
  "dividendo_total_uf m = cuota_base_uf m + seguro_desgravamen_uf m + seguro_incendio_uf m"

record OpexBreakdown =
  contribuciones_clp :: pyfloat
  administracion_clp :: pyfloat
  mantencion_clp :: pyfloat
  vacancia_clp :: pyfloat
  opex_gastos_comunes_clp :: pyfloat

definition total_clp :: "OpexBreakdown \<Rightarrow> pyfloat" where
  "total_clp ox =
     contribuciones_clp ox + administracion_clp ox + mantencion_clp ox
     + vacancia_clp ox + opex_gastos_comunes_clp ox"

section \<open>financials.py: RealEstateCalculator, currency conversions\<close>

text \<open>The calculator holds one \<^verbatim>\<open>CurrencyRates\<close>; it is the first argument here.\<close>

definition uf_to_clp :: "CurrencyRates \<Rightarrow> pyfloat \<Rightarrow> pyfloat" where
  "uf_to_clp rates amount_uf = amount_uf * uf_clp rates"

definition clp_to_uf :: "CurrencyRates \<Rightarrow> pyfloat \<Rightarrow> pyfloat" where
  "clp_to_uf rates amount_clp = amount_clp / uf_clp rates"

definition uf_to_eur :: "CurrencyRates \<Rightarrow> pyfloat \<Rightarrow> pyfloat" where
  "uf_to_eur rates amount_uf = uf_to_clp rates amount_uf / eur_clp rates"

definition clp_to_eur :: "CurrencyRates \<Rightarrow> pyfloat \<Rightarrow> pyfloat" where
  "clp_to_eur rates amount_clp = amount_clp / eur_clp rates"

definition eur_to_clp :: "CurrencyRates \<Rightarrow> pyfloat \<Rightarrow> pyfloat" where
  "eur_to_clp rates amount_eur = amount_eur * eur_clp rates"

definition eur_to_uf :: "CurrencyRates \<Rightarrow> pyfloat \<Rightarrow> pyfloat" where
  "eur_to_uf rates amount_eur = clp_to_uf rates (eur_to_clp rates amount_eur)"

section \<open>financials.py: initial investment\<close>

text \<open>
  The percentage fees are rounded with \<^verbatim>\<open>round(x, 2)\<close>. In the program the operand is
  the double nearest to the exact product, and \<^verbatim>\<open>round\<close> decides on that double. When
  the exact product lies exactly half way between two multiples of 0.01 (as
  \<open>529 * 0.005 = 2.645\<close> does), the double lies just above or just below it, so the
  direction does not follow from the exact value: for such operands it is given by the
  parameter \<open>tie_up\<close>. Every other operand is rounded to the nearest multiple.
\<close>

definition round_nearest :: "bool \<Rightarrow> real \<Rightarrow> int" where
  "round_nearest up x =
     (let f = \<lfloor>x\<rfloor>; d = x - of_int f
      in if d < 1 / 2 then f
         else if 1 / 2 < d then f + 1
         else if up then f + 1 else f)"

definition round_float :: "(pyfloat \<Rightarrow> bool) \<Rightarrow> pyfloat \<Rightarrow> nat \<Rightarrow> pyfloat" where
  "round_float tie_up x ndigits =
     of_int (round_nearest (tie_up x) (x * 10 ^ ndigits)) / 10 ^ ndigits"

definition calculate_initial_investment ::
  "(pyfloat \<Rightarrow> bool) \<Rightarrow> pyfloat \<Rightarrow> pyfloat \<Rightarrow> CapexBreakdown" where
  "calculate_initial_investment tie_up property_value_uf pie_pct =
     (let pie = property_value_uf * pie_pct;
          credito_uf = property_value_uf - pie;
          impuesto_mutuo = credito_uf * RATE_impuesto_mutuo;
          cbrs = min (property_value_uf * RATE_cbrs_rate) RATE_cbrs_tope_uf;
          corretaje_neto = property_value_uf * RATE_corretaje_rate;
          corretaje_con_iva = corretaje_neto * (1 + RATE_iva)
      in \<lparr>pie_uf = round_float tie_up pie 2,
          impuesto_mutuo_uf = round_float tie_up impuesto_mutuo 2,
          tasacion_uf = FIXED_tasacion,
          estudio_titulos_uf = FIXED_estudio_titulos,
          borrador_escritura_uf = FIXED_borrador_escritura,
          notaria_uf = FIXED_notaria,
          cbrs_uf = round_float tie_up cbrs 2,
          corretaje_uf = round_float tie_up corretaje_con_iva 2\<rparr>)"

section \<open>financials.py: internal rate of return\<close>

text \<open>
  \<^verbatim>\<open>numpy_financial.irr\<close> is a library root finder and is a parameter of the model. Its
  outcome on a cash-flow vector is a monthly rate, or no rate (\<^verbatim>\<open>None\<close> or NaN), or an
  exception; \<^verbatim>\<open>calculate_irr\<close> turns the last two into \<^verbatim>\<open>None\<close>.
\<close>

datatype irr_outcome = IrrRate pyfloat | IrrNoRate | IrrRaises

text \<open>
  The cash-flow vector is assembled before the \<^verbatim>\<open>try\<close>: \<^verbatim>\<open>monthly_cashflows[:-1]\<close> is
  \<open>butlast\<close> and never fails, \<^verbatim>\<open>monthly_cashflows[-1]\<close> raises \<^verbatim>\<open>IndexError\<close> on the
  empty list. Inside the \<^verbatim>\<open>try\<close> every exception is caught and gives \<^verbatim>\<open>None\<close>.
\<close>

definition calculate_irr ::
  "(pyfloat list \<Rightarrow> irr_outcome) \<Rightarrow> pyfloat \<Rightarrow> pyfloat list \<Rightarrow> pyfloat
     \<Rightarrow> py_error + pyfloat option" where
  "calculate_irr npf_irr cash_invested monthly_cashflows exit_value =
     (let cashflows = [- cash_invested] @ butlast monthly_cashflows
      in if monthly_cashflows = [] then Inl IndexError
         else let cashflows = cashflows @ [last monthly_cashflows + exit_value]
              in case npf_irr cashflows of
                   IrrRate irr_monthly \<Rightarrow> Inr (Some ((1 + irr_monthly) ^ 12 - 1))
                 | IrrNoRate \<Rightarrow> Inr None
                 | IrrRaises \<Rightarrow> Inr None)"

text \<open>Sequencing of computations that may raise: the first error is the result.\<close>

definition bind_err :: "py_error + 'a \<Rightarrow> ('a \<Rightarrow> py_error + 'b) \<Rightarrow> py_error + 'b" where
  "bind_err r f = (case r of Inl e \<Rightarrow> Inl e | Inr v \<Rightarrow> f v)"

section \<open>market_intelligence.py: synthetic comparables\<close>

text \<open>
  A \<^verbatim>\<open>RentComparable\<close>; the fields carry the prefix \<open>rc_\<close> because several of their
  names are fields of \<^verbatim>\<open>PropertyInput\<close> too. \<^verbatim>\<open>__post_init__\<close> fills
  \<^verbatim>\<open>precio_m2\<close> when the surface is positive and leaves the default 0 otherwise.
\<close>

record RentComparable =
  rc_precio_clp :: pyfloat
  rc_superficie_m2 :: pyfloat
  rc_comuna :: string
  rc_dormitorios :: int
  rc_banos :: int
  rc_url :: "string option"
  rc_precio_m2 :: pyfloat

definition RentComparable_init ::
  "pyfloat \<Rightarrow> pyfloat \<Rightarrow> string \<Rightarrow> int \<Rightarrow> int \<Rightarrow> string option \<Rightarrow> RentComparable" where
  "RentComparable_init precio surf com dorms banos u =
     \<lparr>rc_precio_clp = precio, rc_superficie_m2 = surf, rc_comuna = com,
      rc_dormitorios = dorms, rc_banos = banos, rc_url = u,
      rc_precio_m2 = (if 0 < surf then precio / surf else 0)\<rparr>"

text \<open>
  The module \<^verbatim>\<open>random\<close> of the standard library, with its hidden global generator made
  explicit: \<open>'g\<close> is the state of the generator, \<^verbatim>\<open>random.seed(n)\<close> replaces the state
  by one that depends on \<open>n\<close> only, and \<^verbatim>\<open>random.uniform\<close> and \<^verbatim>\<open>random.choice\<close>
  read the state and advance it. The three operations are parameters of the model.
\<close>

record 'g random_module =
  rnd_seed :: "int \<Rightarrow> 'g"
  rnd_uniform :: "'g \<Rightarrow> pyfloat \<Rightarrow> pyfloat \<Rightarrow> pyfloat \<times> 'g"
  rnd_choice :: "'g \<Rightarrow> int list \<Rightarrow> int \<times> 'g"

text \<open>
  The body of \<^verbatim>\<open>for i in range(n_samples)\<close>; the arguments after the module are the
  price range, the inputs, the number of samples still to draw and the generator state.
  The draws are made in the order of the source: surface factor, price per square metre,
  bedroom offset, bathroom offset.
\<close>

fun comparables_loop ::
  "'g random_module \<Rightarrow> pyfloat \<Rightarrow> pyfloat \<Rightarrow> string \<Rightarrow> pyfloat \<Rightarrow> int \<Rightarrow> nat \<Rightarrow> 'g
     \<Rightarrow> RentComparable list \<times> 'g" where
  "comparables_loop R min_price_m2 max_price_m2 com superficie dorms 0 g = ([], g)"
| "comparables_loop R min_price_m2 max_price_m2 com superficie dorms (Suc k) g =
     (let (sup_factor, g1) = rnd_uniform R g (85 / 100) (115 / 100);
          surf = superficie * sup_factor;
          (price_m2, g2) = rnd_uniform R g1 min_price_m2 max_price_m2;
          price_m2 = (if 100 < surf then price_m2 * (92 / 100)
                      else if surf < 50 then price_m2 * (105 / 100) else price_m2);
          dorm_adjust = 1 + (of_int dorms - 2) * (3 / 100);
          price_m2 = price_m2 * dorm_adjust;
          precio_total = price_m2 * surf;
          (d_dorm, g3) = rnd_choice R g2 [- 1, 0, 0, 1];
          (d_bano, g4) = rnd_choice R g3 [- 1, 0];
          comparable = RentComparable_init (py_round precio_total (- 3)) (py_round surf 1) com
                         (dorms + d_dorm) (max 1 (dorms + d_bano)) None;
          (rest, g') = comparables_loop R min_price_m2 max_price_m2 com superficie dorms k g4
      in (comparable # rest, g'))"

text \<open>
  \<^verbatim>\<open>self.rent_data.get(comuna, self.rent_data["_default"])\<close> evaluates the default
  first, so a table without the key \<^verbatim>\<open>_default\<close> raises \<^verbatim>\<open>KeyError\<close>. The function
  takes the state of the global generator and returns the new one with the list.
\<close>

definition generate_synthetic_comparables ::
  "'g random_module \<Rightarrow> (string \<rightharpoonup> pyfloat \<times> pyfloat) \<Rightarrow> 'g \<Rightarrow> string \<Rightarrow> pyfloat \<Rightarrow> int \<Rightarrow> int
     \<Rightarrow> py_error + RentComparable list \<times> 'g" where
  "generate_synthetic_comparables R rent_data g com superficie dorms n_samples =
     (case rent_data ''_default'' of
        None \<Rightarrow> Inl KeyError
      | Some dflt \<Rightarrow>
          (let (min_price_m2, max_price_m2) =
                 (case rent_data com of None \<Rightarrow> dflt | Some rent_range \<Rightarrow> rent_range);
               g0 = rnd_seed R 42
           in Inr (comparables_loop R min_price_m2 max_price_m2 com superficie dorms
                     (nat n_samples) g0)))"

text \<open>
  The table \<^verbatim>\<open>AVG_RENT_PER_COMMUNE\<close> (price range per square metre and month), which a
  \<^verbatim>\<open>MarketCompScraper\<close> uses when it is given no table of its own. Letters outside
  ASCII are written as their UTF-8 bytes.
\<close>

definition AVG_RENT_PER_COMMUNE :: "string \<rightharpoonup> pyfloat \<times> pyfloat" where
  "AVG_RENT_PER_COMMUNE = map_of
     [(''Las Condes'', (10000, 15000)),
      (''Vitacura'', (12000, 18000)),
      (''Lo Barnechea'', (9000, 14000)),
      (''Providencia'', (10000, 14000)),
      ([char_of (195::nat), char_of (145::nat)] @ ''u''
         @ [char_of (195::nat), char_of (177::nat)] @ ''oa'', (8000, 12000)),
      (''La Reina'', (8000, 11000)),
      (''Santiago'', (7000, 11000)),
      (''San Miguel'', (7000, 10000)),
      (''La Florida'', (6000, 9000)),
      (''Maip'' @ [char_of (195::nat), char_of (186::nat)], (5500, 8500)),
      (''Puente Alto'', (5000, 7500)),
      (''_default'', (6000, 10000))]"

text \<open>
  A small random source, used to run the generator on a concrete input: the state counts
  the draws, \<^verbatim>\<open>seed\<close> resets the count, \<^verbatim>\<open>uniform\<close> returns the lower bound at every
  third draw and the upper bound otherwise, and \<^verbatim>\<open>choice\<close> returns the first element.
\<close>

definition cycling_random :: "nat random_module" where
  "cycling_random =
     \<lparr>rnd_seed = (\<lambda>n. 0),
      rnd_uniform = (\<lambda>g a b. (if g mod 3 = 0 then a else b, g + 1)),
      rnd_choice = (\<lambda>g xs. (hd xs, g + 1))\<rparr>"

text \<open>
  The fifteen comparables that the generator draws from \<open>cycling_random\<close> for a flat of
  60 square metres and 2 bedrooms in Santiago (range 7000 to 11000 per square metre): three
  comparables in turn, with the prices 561000, 759000 and 483000.
\<close>

definition cycling_samples :: "RentComparable list" where
  "cycling_samples =
     [RentComparable_init 561000 51 ''Santiago'' 1 1 None,
      RentComparable_init 759000 69 ''Santiago'' 1 1 None,
      RentComparable_init 483000 69 ''Santiago'' 1 1 None]"

definition cycling_comparables :: "RentComparable list" where
  "cycling_comparables =
     cycling_samples @ cycling_samples @ cycling_samples @ cycling_samples @ cycling_samples"

text \<open>
  Nine comparables for the outlier filter: eight at 300000 and one at 1200000. Their mean
  is 400000 and their sample standard deviation 300000, so the filter keeps the prices
  between \<open>-200000\<close> and 1000000.
\<close>

definition usual_comparable :: RentComparable where
  "usual_comparable = RentComparable_init 300000 50 ''Santiago'' 2 1 None"

definition outlier_comparable :: RentComparable where
  "outlier_comparable = RentComparable_init 1200000 50 ''Santiago'' 2 1 None"

section \<open>market_intelligence.py: outlier removal and market rent\<close>

text \<open>
  \<^verbatim>\<open>statistics.mean\<close>, \<^verbatim>\<open>statistics.stdev\<close> (the sample standard deviation, with
  \<open>n - 1\<close> in the denominator) and \<^verbatim>\<open>statistics.median\<close>; each raises
  \<^verbatim>\<open>StatisticsError\<close> when it has too few data points.
\<close>

definition mean :: "pyfloat list \<Rightarrow> py_error + pyfloat" where
  "mean xs = (if xs = [] then Inl StatisticsError else Inr (sum_list xs / real (length xs)))"

definition stdev :: "pyfloat list \<Rightarrow> py_error + pyfloat" where
  "stdev xs =
     (if length xs < 2 then Inl StatisticsError
      else let m = sum_list xs / real (length xs)
           in Inr (sqrt (sum_list (map (\<lambda>x. (x - m) ^ 2) xs) / real (length xs - 1))))"

definition median :: "pyfloat list \<Rightarrow> py_error + pyfloat" where
  "median xs =
     (let ys = sort xs; n = length ys
      in if n = 0 then Inl StatisticsError
         else if n mod 2 = 1 then Inr (ys ! (n div 2))
         else Inr ((ys ! (n div 2 - 1) + ys ! (n div 2)) / 2))"

definition py_min :: "pyfloat list \<Rightarrow> py_error + pyfloat" where
  "py_min xs = (case xs of [] \<Rightarrow> Inl ValueError | x # rest \<Rightarrow> Inr (fold min rest x))"

definition py_max :: "pyfloat list \<Rightarrow> py_error + pyfloat" where
  "py_max xs = (case xs of [] \<Rightarrow> Inl ValueError | x # rest \<Rightarrow> Inr (fold max rest x))"

definition remove_outliers ::
  "RentComparable list \<Rightarrow> pyfloat \<Rightarrow> py_error + RentComparable list" where
  "remove_outliers comparables std_factor =
     (if length comparables < 3 then Inr comparables
      else let prices = map rc_precio_clp comparables
           in bind_err (mean prices) (\<lambda>avg.
              bind_err (if 1 < length prices then stdev prices else Inr 0) (\<lambda>std.
              if std = 0 then Inr comparables
              else let lower_bound = avg - std * std_factor;
                       upper_bound = avg + std * std_factor
                   in Inr (filter (\<lambda>c. lower_bound \<le> rc_precio_clp c
                                        \<and> rc_precio_clp c \<le> upper_bound) comparables))))"

record MarketRentAnalysis =
  comparables_count :: nat
  average_rent_clp :: pyfloat
  median_rent_clp :: pyfloat
  min_rent_clp :: pyfloat
  max_rent_clp :: pyfloat
  std_dev_clp :: pyfloat
  average_price_m2 :: pyfloat
  suggested_rent_clp :: pyfloat
  suggested_rent_range :: "pyfloat \<times> pyfloat"
  comparables :: "RentComparable list"
  methodology :: string

text \<open>
  The text of \<^verbatim>\<open>methodology\<close>; the accented letter of its first word is written as its
  two UTF-8 bytes.
\<close>

definition methodology_text :: "string \<Rightarrow> string" where
  "methodology_text com =
     ''Estimaci'' @ [char_of (195::nat), char_of (179::nat)]
     @ ''n basada en rangos de mercado para '' @ com @ '' y propiedades similares''"

text \<open>
  \<^verbatim>\<open>analyze_market_rent\<close>. The arguments \<^verbatim>\<open>banos\<close> and \<^verbatim>\<open>use_scraping\<close> do not
  influence the result (the second only logs a warning). The second component of the
  pair \<open>filtered_or_all\<close> records whether the branch
  \<^verbatim>\<open>if not filtered: filtered = comparables\<close> was taken.
\<close>

definition filtered_or_all ::
  "RentComparable list \<Rightarrow> RentComparable list \<Rightarrow> RentComparable list \<times> bool" where
  "filtered_or_all filtered comps = (if filtered = [] then (comps, True) else (filtered, False))"

definition analyze_market_rent ::
  "'g random_module \<Rightarrow> (string \<rightharpoonup> pyfloat \<times> pyfloat) \<Rightarrow> 'g \<Rightarrow> string \<Rightarrow> pyfloat \<Rightarrow> int \<Rightarrow> int \<Rightarrow> bool
     \<Rightarrow> py_error + MarketRentAnalysis \<times> 'g" where
  "analyze_market_rent R rent_data g com superficie dorms banos use_scraping =
     bind_err (generate_synthetic_comparables R rent_data g com superficie dorms 15)
       (\<lambda>(comps, g').
     bind_err (remove_outliers comps 2) (\<lambda>filtered0.
     let filtered = fst (filtered_or_all filtered0 comps);
         prices = map rc_precio_clp filtered;
         prices_m2 = map rc_precio_m2 filtered
     in bind_err (mean prices) (\<lambda>avg_rent.
        bind_err (median prices) (\<lambda>med_rent.
        bind_err (py_min prices) (\<lambda>min_rent.
        bind_err (py_max prices) (\<lambda>max_rent.
        bind_err (if 1 < length prices then stdev prices else Inr 0) (\<lambda>std_rent.
        bind_err (if prices_m2 \<noteq> [] then mean prices_m2 else Inr 0) (\<lambda>avg_m2.
        let suggested = med_rent * (95 / 100);
            suggested_range = (med_rent * (90 / 100), med_rent * (105 / 100))
        in Inr (\<lparr>comparables_count = length filtered,
                  average_rent_clp = py_round avg_rent 0,
                  median_rent_clp = py_round med_rent 0,
                  min_rent_clp = py_round min_rent 0,
                  max_rent_clp = py_round max_rent 0,
                  std_dev_clp = py_round std_rent 0,
                  average_price_m2 = py_round avg_m2 0,
                  suggested_rent_clp = py_round suggested (- 3),
                  suggested_rent_range =
                    (py_round (fst suggested_range) (- 3), py_round (snd suggested_range) (- 3)),
                  comparables = filtered,
                  methodology = methodology_text com\<rparr>, g')))))))))"

section \<open>market_intelligence.py: location analysis\<close>

datatype ConnectivityLevel = HIGH | MEDIUM | LOW | NONE

text \<open>
  An entry of \<^verbatim>\<open>METRO_STATIONS\<close> (a dictionary with the keys \<^verbatim>\<open>name\<close>, \<^verbatim>\<open>line\<close>,
  \<^verbatim>\<open>lat\<close>, \<^verbatim>\<open>lon\<close>) and a \<^verbatim>\<open>MetroStation\<close>, which adds the distance to the
  property.
\<close>

record StationData =
  sd_name :: string
  sd_line :: string
  sd_lat :: pyfloat
  sd_lon :: pyfloat

record MetroStation =
  ms_name :: string
  ms_line :: string
  ms_lat :: pyfloat
  ms_lon :: pyfloat
  distance_m :: pyfloat

text \<open>
  The field \<^verbatim>\<open>distance_meters\<close> holds a distance in metres or \<^verbatim>\<open>float('inf')\<close>;
  \<open>dist_less\<close> is the comparison \<^verbatim>\<open>distance < x\<close> with a finite \<open>x\<close>.
\<close>

datatype distance = Meters pyfloat | Infinite

fun dist_less :: "distance \<Rightarrow> pyfloat \<Rightarrow> bool" where
  "dist_less (Meters d) x = (d < x)"
| "dist_less Infinite x = False"

record LocationAnalysisResult =
  nearest_station :: "MetroStation option"
  distance_meters :: distance
  connectivity_level :: ConnectivityLevel
  nearby_stations :: "MetroStation list"
  metro_lines_nearby :: "string list"
  walking_time_minutes :: int
  has_metro_access :: bool

definition radians :: "pyfloat \<Rightarrow> pyfloat" where
  "radians x = x * pi / 180"

text \<open>\<^verbatim>\<open>math.atan2(y, x)\<close>: the angle of the point \<open>(x, y)\<close>, in \<open>(- pi, pi]\<close>.\<close>

definition py_atan2 :: "pyfloat \<Rightarrow> pyfloat \<Rightarrow> pyfloat" where
  "py_atan2 y x =
     (if 0 < x then arctan (y / x)
      else if x < 0 \<and> 0 \<le> y then arctan (y / x) + pi
      else if x < 0 \<and> y < 0 then arctan (y / x) - pi
      else if 0 < y then pi / 2
      else if y < 0 then - (pi / 2)
      else 0)"

text \<open>
  \<^verbatim>\<open>math.sqrt\<close> raises on a negative argument; over the reals both radicands of
  \<^verbatim>\<open>haversine_distance\<close> lie between 0 and 1 (lemma \<open>haversine_radicand\<close> below), so the
  function has no failing branch.
\<close>

definition haversine_a :: "pyfloat \<Rightarrow> pyfloat \<Rightarrow> pyfloat \<Rightarrow> pyfloat \<Rightarrow> pyfloat" where
  "haversine_a lat1 lon1 lat2 lon2 =
     (let phi1 = radians lat1;
          phi2 = radians lat2;
          delta_phi = radians (lat2 - lat1);
          delta_lambda = radians (lon2 - lon1)
      in (sin (delta_phi / 2)) ^ 2 + cos phi1 * cos phi2 * (sin (delta_lambda / 2)) ^ 2)"

definition haversine_distance :: "pyfloat \<Rightarrow> pyfloat \<Rightarrow> pyfloat \<Rightarrow> pyfloat \<Rightarrow> pyfloat" where
  "haversine_distance lat1 lon1 lat2 lon2 =
     (let R = 6371000;
          a = haversine_a lat1 lon1 lat2 lon2;
          c = 2 * py_atan2 (sqrt a) (sqrt (1 - a))
      in R * c)"

text \<open>
  Strings are byte strings holding UTF-8, so the substring test \<^verbatim>\<open>a in b\<close> is the
  test on the bytes. \<^verbatim>\<open>str.lower\<close> knows the whole of Unicode and is a parameter
  \<open>str_lower\<close> of the functions that call it. \<open>latin_lower\<close> is that function on
  strings made of ASCII and of the accented Latin letters \<open>U+00C0\<close> to \<open>U+00DE\<close>
  (two bytes, the first of them 195), which covers the names of the tables of the module;
  it is used to run the model on concrete names.
\<close>

definition lower_char :: "char \<Rightarrow> char" where
  "lower_char c =
     (if CHR ''A'' \<le> c \<and> c \<le> CHR ''Z'' then char_of (of_char c + (32::nat)) else c)"

fun latin_lower :: "string \<Rightarrow> string" where
  "latin_lower [] = []"
| "latin_lower [c] = [lower_char c]"
| "latin_lower (c # d # cs) =
     (if of_char c = (195::nat) \<and> (128::nat) \<le> of_char d \<and> of_char d \<le> (158::nat)
         \<and> of_char d \<noteq> (151::nat)
      then c # char_of (of_char d + (32::nat)) # latin_lower cs
      else lower_char c # latin_lower (d # cs))"

definition py_in :: "string \<Rightarrow> string \<Rightarrow> bool" where
  "py_in a b = sublist a b"

text \<open>
  \<^verbatim>\<open>LocationAnalyzer\<close>. The table \<^verbatim>\<open>COMMUNE_COORDINATES\<close> (a dictionary, kept in its
  order of insertion as a list of pairs with distinct keys) and the list
  \<^verbatim>\<open>METRO_STATIONS\<close> are static data of the module and are parameters here.
\<close>

definition LocationAnalyzer_init :: "StationData list \<Rightarrow> StationData list option \<Rightarrow> StationData list" where
  "LocationAnalyzer_init METRO_STATIONS metro_stations =
     (case metro_stations of
        None \<Rightarrow> METRO_STATIONS
      | Some given \<Rightarrow> if given = [] then METRO_STATIONS else given)"

definition get_coordinates_for_comuna ::
  "(string \<Rightarrow> string) \<Rightarrow> (string \<times> pyfloat \<times> pyfloat) list \<Rightarrow> string
     \<Rightarrow> (pyfloat \<times> pyfloat) option" where
  "get_coordinates_for_comuna str_lower COMMUNE_COORDINATES com =
     (case map_of COMMUNE_COORDINATES com of
        Some coords \<Rightarrow> Some coords
      | None \<Rightarrow>
          (let comuna_lower = str_lower com
           in case find (\<lambda>(comm, coords). py_in (str_lower comm) comuna_lower
                                          \<or> py_in comuna_lower (str_lower comm))
                     COMMUNE_COORDINATES of
                Some (comm, coords) \<Rightarrow> Some coords
              | None \<Rightarrow> None))"

text \<open>\<^verbatim>\<open>int(x)\<close> on a float truncates towards zero.\<close>

definition py_int :: "pyfloat \<Rightarrow> int" where
  "py_int x = (if 0 \<le> x then \<lfloor>x\<rfloor> else \<lceil>x\<rceil>)"

text \<open>The result that both branches without coordinates return.\<close>

definition no_coordinates_result :: LocationAnalysisResult where
  "no_coordinates_result =
     \<lparr>nearest_station = None,
      distance_meters = Infinite,
      connectivity_level = NONE,
      nearby_stations = [],
      metro_lines_nearby = [],
      walking_time_minutes = 0,
      has_metro_access = False\<rparr>"

text \<open>The part of \<^verbatim>\<open>analyze\<close> after the coordinates are known.\<close>

definition analyze_at :: "StationData list \<Rightarrow> pyfloat \<Rightarrow> pyfloat \<Rightarrow> LocationAnalysisResult" where
  "analyze_at stations lat lon =
     (let stations_with_distance =
            map (\<lambda>station_data.
                   \<lparr>ms_name = sd_name station_data,
                    ms_line = sd_line station_data,
                    ms_lat = sd_lat station_data,
                    ms_lon = sd_lon station_data,
                    distance_m = haversine_distance lat lon (sd_lat station_data)
                                   (sd_lon station_data)\<rparr>) stations;
          stations_with_distance = sort_key distance_m stations_with_distance;
          nearest = (case stations_with_distance of [] \<Rightarrow> None | s # rest \<Rightarrow> Some s);
          dist = (case nearest of None \<Rightarrow> Infinite | Some s \<Rightarrow> Meters (distance_m s));
          connectivity = (if dist_less dist 500 then HIGH
                          else if dist_less dist 800 then MEDIUM
                          else if dist_less dist 1500 then LOW
                          else NONE);
          nearby = filter (\<lambda>s. distance_m s \<le> 1500) stations_with_distance;
          lines = sort (remdups (map ms_line nearby));
          walking_time = (case dist of
                            Meters d \<Rightarrow> if d < 3000 then py_int (d / 80) else 0
                          | Infinite \<Rightarrow> 0)
      in \<lparr>nearest_station = nearest,
          distance_meters = dist,
          connectivity_level = connectivity,
          nearby_stations = take 5 nearby,
          metro_lines_nearby = lines,
          walking_time_minutes = walking_time,
          has_metro_access = dist_less dist 1500\<rparr>)"

definition analyze ::
  "(string \<Rightarrow> string) \<Rightarrow> StationData list \<Rightarrow> (string \<times> pyfloat \<times> pyfloat) list
     \<Rightarrow> pyfloat option \<Rightarrow> pyfloat option \<Rightarrow> string option \<Rightarrow> LocationAnalysisResult" where
  "analyze str_lower stations COMMUNE_COORDINATES lat lon com =
     (case (lat, lon) of
        (Some la, Some lo) \<Rightarrow> analyze_at stations la lo
      | _ \<Rightarrow>
          (case com of
             None \<Rightarrow> no_coordinates_result
           | Some c \<Rightarrow>
               if c = [] then no_coordinates_result
               else (case get_coordinates_for_comuna str_lower COMMUNE_COORDINATES c of
                       Some (la, lo) \<Rightarrow> analyze_at stations la lo
                     | None \<Rightarrow> no_coordinates_result)))"

text \<open>
  Data to run \<^verbatim>\<open>analyze\<close> on: the first five entries of \<^verbatim>\<open>COMMUNE_COORDINATES\<close>, the
  station Baquedano of \<^verbatim>\<open>METRO_STATIONS\<close>, and the name of the fifth commune written in
  small letters (its first letter is \<open>U+00F1\<close>, the bytes 195 and 177), which is not a key
  of the table and is found by the search on the lower-case names.
\<close>

definition COMMUNE_COORDINATES_head :: "(string \<times> pyfloat \<times> pyfloat) list" where
  "COMMUNE_COORDINATES_head =
     [(''Las Condes'', (- 334170 / 10000, - 705875 / 10000)),
      (''Vitacura'', (- 333970 / 10000, - 705780 / 10000)),
      (''Lo Barnechea'', (- 333550 / 10000, - 705180 / 10000)),
      (''Providencia'', (- 334270 / 10000, - 706100 / 10000)),
      ([char_of (195::nat), char_of (145::nat)] @ ''u''
         @ [char_of (195::nat), char_of (177::nat)] @ ''oa'',
       (- 334560 / 10000, - 705970 / 10000))]"

definition baquedano :: "StationData list" where
  "baquedano =
     [\<lparr>sd_name = ''Baquedano'', sd_line = ''L1'', sd_lat = - 334375 / 10000,
       sd_lon = - 706350 / 10000\<rparr>]"

definition nunoa_small :: string where
  "nunoa_small =
     [char_of (195::nat), char_of (177::nat)] @ ''u''
       @ [char_of (195::nat), char_of (177::nat)] @ ''oa''"

section \<open>Facts about rounding\<close>

lemma round_half_even_of_int [simp]: "round_half_even (of_int k) = k"
  by (simp add: round_half_even_def)

lemma round_half_even_lower: "of_int (round_half_even x) \<ge> x - 1 / 2"
  unfolding round_half_even_def Let_def by (auto; linarith)

lemma round_half_even_upper: "of_int (round_half_even x) \<le> x + 1 / 2"
  unfolding round_half_even_def Let_def by (auto; linarith)

lemma round_half_even_mono:
  assumes "x \<le> y"
  shows "round_half_even x \<le> round_half_even y"
proof (cases "\<lfloor>x\<rfloor> = \<lfloor>y\<rfloor>")
  case True
  with assms show ?thesis
    unfolding round_half_even_def Let_def by auto
next
  case False
  with assms have lt: "\<lfloor>x\<rfloor> + 1 \<le> \<lfloor>y\<rfloor>"
    using floor_mono [of x y] by linarith
  have "round_half_even x \<le> \<lfloor>x\<rfloor> + 1"
    unfolding round_half_even_def Let_def by auto
  moreover have "\<lfloor>y\<rfloor> \<le> round_half_even y"
    unfolding round_half_even_def Let_def by auto
  ultimately show ?thesis using lt by linarith
qed

lemma py_round_mono:
  assumes "x \<le> y"
  shows "py_round x nd \<le> py_round y nd"
proof (cases "0 \<le> nd")
  case True
  have "x * 10 ^ nat nd \<le> y * 10 ^ nat nd"
    using assms by (simp add: mult_right_mono)
  then have "round_half_even (x * 10 ^ nat nd) \<le> round_half_even (y * 10 ^ nat nd)"
    by (rule round_half_even_mono)
  then show ?thesis
    using True by (simp add: py_round_def divide_right_mono)
next
  case False
  have "x / 10 ^ nat (- nd) \<le> y / 10 ^ nat (- nd)"
    using assms by (simp add: divide_right_mono)
  then have "round_half_even (x / 10 ^ nat (- nd)) \<le> round_half_even (y / 10 ^ nat (- nd))"
    by (rule round_half_even_mono)
  then show ?thesis
    using False by (simp add: py_round_def mult_right_mono)
qed

lemma py_round_of_int [simp]: "0 \<le> nd \<Longrightarrow> py_round (of_int k) nd = of_int k"
proof -
  assume nd: "0 \<le> nd"
  have "of_int k * (10::real) ^ nat nd = of_int (k * 10 ^ nat nd)" by simp
  then have "round_half_even (of_int k * 10 ^ nat nd) = k * 10 ^ nat nd"
    using round_half_even_of_int by presburger
  then show ?thesis using nd by (simp add: py_round_def)
qed

lemma py_round_zero [simp]: "py_round 0 nd = 0"
  by (simp add: py_round_def round_half_even_def)

section \<open>Currency snapshots\<close>

text \<open>
  C1 (as the code has it). Constructing a \<^verbatim>\<open>CurrencyRates\<close> never fails: for every
  triple of rates, positive or not, the constructor returns a snapshot that stores exactly
  the rates it was given. No positivity check is made at construction.
\<close>

theorem CurrencyRates_init_accepts_all:
  "CurrencyRates_init uf eur usd t =
     Inr \<lparr>uf_clp = uf, eur_clp = eur, usd_clp = usd, fecha = t\<rparr>"
  by (simp add: CurrencyRates_init_def)

text \<open>
  C1 fails as stated: the snapshot with an indexed-unit rate of 0 and a foreign rate of
  \<open>-1\<close> is constructed.
\<close>

theorem CurrencyRates_init_nonpositive_counterexample:
  "CurrencyRates_init 0 (- 1) 950 0 =
     Inr \<lparr>uf_clp = 0, eur_clp = - 1, usd_clp = 950, fecha = 0\<rparr>"
  by (simp add: CurrencyRates_init_def)

text \<open>
  C6. For every amount and every snapshot with positive rates, converting local currency
  to the foreign currency and back returns the amount, and so does converting the indexed
  unit to local currency and back. Over the reals the round trip is exact, hence within
  every tolerance.
\<close>

theorem conversion_round_trip:
  assumes "0 < uf_clp rates" and "0 < eur_clp rates"
  shows "eur_to_clp rates (clp_to_eur rates x) = x
       \<and> clp_to_uf rates (uf_to_clp rates x) = x"
  using assms by (simp add: eur_to_clp_def clp_to_eur_def clp_to_uf_def uf_to_clp_def)

theorem conversion_round_trip_witness:
  "0 < uf_clp \<lparr>uf_clp = 38000, eur_clp = 1000, usd_clp = 950, fecha = 0\<rparr>
   \<and> 0 < eur_clp \<lparr>uf_clp = 38000, eur_clp = 1000, usd_clp = 950, fecha = 0\<rparr>
   \<and> eur_to_clp \<lparr>uf_clp = 38000, eur_clp = 1000, usd_clp = 950, fecha = 0\<rparr>
        (clp_to_eur \<lparr>uf_clp = 38000, eur_clp = 1000, usd_clp = 950, fecha = 0\<rparr> 800000) = 800000
   \<and> clp_to_uf \<lparr>uf_clp = 38000, eur_clp = 1000, usd_clp = 950, fecha = 0\<rparr>
        (uf_to_clp \<lparr>uf_clp = 38000, eur_clp = 1000, usd_clp = 950, fecha = 0\<rparr> 5000) = 5000"
  using conversion_round_trip
    [of "\<lparr>uf_clp = 38000, eur_clp = 1000, usd_clp = 950, fecha = 0\<rparr>" 800000]
    conversion_round_trip
    [of "\<lparr>uf_clp = 38000, eur_clp = 1000, usd_clp = 950, fecha = 0\<rparr>" 5000]
  by simp

section \<open>Closing costs\<close>

lemma round_nearest_of_int [simp]: "round_nearest up (of_int k) = k"
  by (simp add: round_nearest_def)

lemma round_nearest_lower: "x - 1 / 2 \<le> of_int (round_nearest up x)"
  unfolding round_nearest_def Let_def by (auto; linarith)

lemma round_nearest_upper: "of_int (round_nearest up x) \<le> x + 1 / 2"
  unfolding round_nearest_def Let_def by (auto; linarith)

lemma round_float_error: "\<bar>round_float tie_up x 2 - x\<bar> \<le> 1 / 200"
proof -
  define r :: real where "r = of_int (round_nearest (tie_up x) (x * 100))"
  have lo: "x * 100 - 1 / 2 \<le> r"
    unfolding r_def by (rule round_nearest_lower)
  have hi: "r \<le> x * 100 + 1 / 2"
    unfolding r_def by (rule round_nearest_upper)
  have e: "round_float tie_up x 2 = r / 100"
    by (simp add: round_float_def r_def)
  show ?thesis
    unfolding e using lo hi by linarith
qed

lemma round_float_cents: "\<exists>k::int. round_float tie_up x 2 = of_int k / 100"
  by (auto simp: round_float_def)

lemma round_float_of_int: "round_float tie_up (of_int k) 2 = of_int k"
proof -
  have "of_int k * (100::real) = of_int (k * 100)" by simp
  then have "round_nearest (tie_up (of_int k)) (of_int k * 100) = k * 100"
    using round_nearest_of_int by presburger
  then show ?thesis by (simp add: round_float_def)
qed

lemma cbrs_uf_eq:
  "cbrs_uf (calculate_initial_investment tie_up V pie)
   = round_float tie_up (min (V * (5 / 1000)) 50) 2"
  by (simp add: calculate_initial_investment_def Let_def RATE_cbrs_rate_def
      RATE_cbrs_tope_uf_def)

text \<open>
  C5 (as the code has it). For every property value and every down-payment fraction the
  registry fee \<^verbatim>\<open>cbrs_uf\<close> is \<open>min (V * 0.005) 50\<close> rounded to the cent: it is a
  multiple of 0.01 and differs from \<open>min (V * 0.005) 50\<close> by at most \<open>0.005\<close>, whichever
  way a fee half way between two cents is rounded; a value of 5000 yields 25 and a value
  of 20000 yields 50.
\<close>

theorem cbrs_uf_nearest_cent:
  "\<bar>cbrs_uf (calculate_initial_investment tie_up V pie) - min (V * (5 / 1000)) 50\<bar> \<le> 1 / 200
   \<and> (\<exists>k::int. cbrs_uf (calculate_initial_investment tie_up V pie) = of_int k / 100)
   \<and> cbrs_uf (calculate_initial_investment tie_up 5000 pie) = 25
   \<and> cbrs_uf (calculate_initial_investment tie_up 20000 pie) = 50"
proof -
  have a: "round_float tie_up (min (5000 * (5 / 1000)) 50) 2 = 25"
    using round_float_of_int [of tie_up 25] by simp
  have b: "round_float tie_up (min (20000 * (5 / 1000)) 50) 2 = 50"
    using round_float_of_int [of tie_up 50] by simp
  show ?thesis
    unfolding cbrs_uf_eq
    using a b round_float_error [of tie_up "min (V * (5 / 1000)) 50"]
      round_float_cents [of tie_up "min (V * (5 / 1000)) 50"]
    by simp
qed

text \<open>
  C5 fails as stated: for a property value of 1.2 the fee before rounding is 0.006 and the
  recorded fee is 0.01, whichever way ties are rounded.
\<close>

theorem cbrs_uf_unrounded_counterexample:
  "(0::real) < 12 / 10
   \<and> cbrs_uf (calculate_initial_investment (\<lambda>x. True) (12 / 10) (3 / 10)) = 1 / 100
   \<and> cbrs_uf (calculate_initial_investment (\<lambda>x. False) (12 / 10) (3 / 10)) = 1 / 100
   \<and> cbrs_uf (calculate_initial_investment (\<lambda>x. True) (12 / 10) (3 / 10))
       \<noteq> min (12 / 10 * (5 / 1000)) 50"
  by (simp add: cbrs_uf_eq round_float_def round_nearest_def)

section \<open>Internal rate of return\<close>

lemma calculate_irr_empty: "calculate_irr npf_irr ci [] ev = Inl IndexError"
  by (simp add: calculate_irr_def)

lemma calculate_irr_nonempty:
  assumes "cfs \<noteq> []"
  shows "calculate_irr npf_irr ci cfs ev =
           Inr (case npf_irr ([- ci] @ butlast cfs @ [last cfs + ev]) of
                  IrrRate m \<Rightarrow> Some ((1 + m) ^ 12 - 1) | IrrNoRate \<Rightarrow> None | IrrRaises \<Rightarrow> None)"
  using assms by (simp add: calculate_irr_def Let_def split: irr_outcome.splits)

text \<open>
  C8. \<^verbatim>\<open>calculate_irr\<close> raises \<^verbatim>\<open>IndexError\<close> exactly when its list of monthly cash
  flows is empty; for every non-empty list it returns normally (a rate or \<^verbatim>\<open>None\<close>),
  whatever the root finder does, an exception included.
\<close>

theorem calculate_irr_raises_iff_empty:
  "(calculate_irr npf_irr ci cfs ev = Inl IndexError \<longleftrightarrow> cfs = [])
   \<and> (cfs \<noteq> [] \<longrightarrow> (\<exists>v. calculate_irr npf_irr ci cfs ev = Inr v))"
proof (cases "cfs = []")
  case True
  then show ?thesis by (simp add: calculate_irr_empty)
next
  case False
  then show ?thesis by (simp add: calculate_irr_nonempty)
qed

theorem calculate_irr_raises_iff_empty_witness:
  "calculate_irr (\<lambda>cfs. IrrRaises) 1000 [] 500 = Inl IndexError
   \<and> calculate_irr (\<lambda>cfs. IrrRaises) 1000 [10, 20] 500 = Inr None
   \<and> calculate_irr (\<lambda>cfs. IrrRate 0) 1000 [10, 20] 500 = Inr (Some 0)"
  using calculate_irr_raises_iff_empty [of "\<lambda>cfs. IrrRaises" 1000 "[]" 500]
  by (simp add: calculate_irr_def)

section \<open>Synthetic comparables and outliers\<close>

text \<open>
  C7. The synthetic comparable generator is deterministic: two calls with the same
  arguments return the same list (and leave the same generator state), whatever the state
  of the global random generator was before each call, because the generator is reseeded
  with the fixed seed 42 before the first draw. A table without the key \<^verbatim>\<open>_default\<close>
  makes both calls raise \<^verbatim>\<open>KeyError\<close>.
\<close>

theorem synthetic_comparables_deterministic:
  "generate_synthetic_comparables R rent_data g1 com superficie dorms n_samples
   = generate_synthetic_comparables R rent_data g2 com superficie dorms n_samples"
  by (simp add: generate_synthetic_comparables_def)

lemma sum_list_above:
  fixes f :: "'a \<Rightarrow> real"
  assumes "xs \<noteq> []" and "\<forall>x \<in> set xs. c < f x"
  shows "c * real (length xs) < sum_list (map f xs)"
  using assms
proof (induction xs)
  case Nil
  then show ?case by simp
next
  case (Cons a xs)
  show ?case
  proof (cases "xs = []")
    case True
    with Cons.prems show ?thesis by simp
  next
    case False
    with Cons have "c * real (length xs) < sum_list (map f xs)" by simp
    moreover have "c < f a" using Cons.prems by simp
    ultimately show ?thesis by (simp add: algebra_simps)
  qed
qed

lemma some_sample_within_two_deviations:
  fixes xs :: "real list"
  assumes n: "3 \<le> length xs"
    and m: "m = sum_list xs / real (length xs)"
    and s: "s = sqrt (sum_list (map (\<lambda>x. (x - m) ^ 2) xs) / real (length xs - 1))"
    and s0: "s \<noteq> 0"
  shows "\<exists>x \<in> set xs. m - s * 2 \<le> x \<and> x \<le> m + s * 2"
proof (rule ccontr)
  assume "\<not> ?thesis"
  then have out: "\<forall>x \<in> set xs. x < m - s * 2 \<or> m + s * 2 < x" by auto
  define V where "V = sum_list (map (\<lambda>x. (x - m) ^ 2) xs) / real (length xs - 1)"
  have V0: "0 \<le> V"
    unfolding V_def by (intro divide_nonneg_nonneg sum_list_nonneg) auto
  have s_eq: "s = sqrt V" unfolding V_def by (rule s)
  have sV: "s ^ 2 = V" using V0 by (simp add: s_eq)
  have "0 \<le> s" using V0 by (simp add: s_eq)
  with s0 have spos: "0 < s" by simp
  then have "0 < s ^ 2" by simp
  then have Vpos: "0 < V" by (simp only: sV)
  have "\<forall>x \<in> set xs. 4 * V < (x - m) ^ 2"
  proof
    fix x assume "x \<in> set xs"
    with out have "x - m < - (2 * s) \<or> 2 * s < x - m" by auto
    then have "\<not> \<bar>x - m\<bar> \<le> \<bar>2 * s\<bar>" using spos by auto
    then have "\<not> (x - m) ^ 2 \<le> (2 * s) ^ 2"
      using abs_le_square_iff [of "x - m" "2 * s"] by blast
    then have "(2 * s) ^ 2 < (x - m) ^ 2" by (rule not_le_imp_less)
    then show "4 * V < (x - m) ^ 2" by (simp add: power_mult_distrib sV)
  qed
  moreover have "xs \<noteq> []" using n by auto
  ultimately have big: "4 * V * real (length xs) < sum_list (map (\<lambda>x. (x - m) ^ 2) xs)"
    by (rule sum_list_above [rotated])
  have "sum_list (map (\<lambda>x. (x - m) ^ 2) xs) = V * real (length xs - 1)"
    using n by (simp add: V_def)
  with big have "4 * V * real (length xs) < V * real (length xs - 1)" by simp
  then have "4 * real (length xs) < real (length xs - 1)"
    using Vpos by (simp add: mult.commute mult.left_commute)
  then show False using n by simp
qed

lemma remove_outliers_nonempty:
  assumes "comps \<noteq> []"
  shows "\<exists>ys. remove_outliers comps 2 = Inr ys \<and> ys \<noteq> []"
proof (cases "length comps < 3")
  case True
  with assms show ?thesis by (simp add: remove_outliers_def)
next
  case False
  define prices where "prices = map rc_precio_clp comps"
  define m where "m = sum_list prices / real (length prices)"
  define s where "s = sqrt (sum_list (map (\<lambda>x. (x - m) ^ 2) prices) / real (length prices - 1))"
  have n: "3 \<le> length prices" using False by (simp add: prices_def)
  have mean: "mean prices = Inr m"
    using n by (auto simp: mean_def m_def)
  have stdev: "stdev prices = Inr s"
    using n by (simp add: stdev_def s_def m_def Let_def)
  show ?thesis
  proof (cases "s = 0")
    case True
    with False assms mean stdev n show ?thesis
      by (simp add: remove_outliers_def Let_def bind_err_def prices_def [symmetric])
  next
    case nz: False
    have "\<exists>x \<in> set prices. m - s * 2 \<le> x \<and> x \<le> m + s * 2"
      using n m_def s_def nz by (rule some_sample_within_two_deviations)
    then obtain c where c: "c \<in> set comps"
      "m - s * 2 \<le> rc_precio_clp c" "rc_precio_clp c \<le> m + s * 2"
      by (auto simp: prices_def)
    then have "filter (\<lambda>c. m - s * 2 \<le> rc_precio_clp c \<and> rc_precio_clp c \<le> m + s * 2) comps \<noteq> []"
      by (auto simp: filter_empty_conv)
    with False nz mean stdev n show ?thesis
      by (simp add: remove_outliers_def Let_def bind_err_def prices_def [symmetric])
  qed
qed

lemma length_comparables_loop:
  "length (fst (comparables_loop R lo hi com superficie dorms k g)) = k"
  by (induction k arbitrary: g) (simp_all add: Let_def case_prod_beta)

lemma generated_nonempty:
  assumes "generate_synthetic_comparables R rent_data g com superficie dorms 15 = Inr (comps, g')"
  shows "comps \<noteq> []"
proof -
  obtain lo hi where "comparables_loop R lo hi com superficie dorms 15 (rnd_seed R 42) = (comps, g')"
    using assms
    by (auto simp: generate_synthetic_comparables_def Let_def
        split: option.splits prod.splits)
  then have "comps = fst (comparables_loop R lo hi com superficie dorms 15 (rnd_seed R 42))"
    by simp
  then have "length comps = 15" by (simp only: length_comparables_loop)
  then show ?thesis by auto
qed

lemma comparables_loop_numeral:
  "comparables_loop R lo hi com s d (numeral n) g
   = comparables_loop R lo hi com s d (Suc (pred_numeral n)) g"
  by (simp add: numeral_eq_Suc)

lemma cycling_step_a:
  assumes "g mod 3 = 0"
  shows "comparables_loop cycling_random 7000 11000 ''Santiago'' 60 2 (Suc k) g
   = (RentComparable_init 561000 51 ''Santiago'' 1 1 None
        # fst (comparables_loop cycling_random 7000 11000 ''Santiago'' 60 2 k (g + 4)),
      snd (comparables_loop cycling_random 7000 11000 ''Santiago'' 60 2 k (g + 4)))"
proof -
  have n: "(g + 1) mod 3 \<noteq> 0" using assms by presburger
  have e: "Suc (Suc (Suc (Suc g))) = g + 4" by simp
  show ?thesis
    using assms n
    by (simp add: cycling_random_def Let_def case_prod_beta py_round_def round_half_even_def e)
qed

lemma cycling_step_b:
  assumes "g mod 3 = 1"
  shows "comparables_loop cycling_random 7000 11000 ''Santiago'' 60 2 (Suc k) g
   = (RentComparable_init 759000 69 ''Santiago'' 1 1 None
        # fst (comparables_loop cycling_random 7000 11000 ''Santiago'' 60 2 k (g + 4)),
      snd (comparables_loop cycling_random 7000 11000 ''Santiago'' 60 2 k (g + 4)))"
proof -
  have n: "(g + 1) mod 3 \<noteq> 0" "g mod 3 \<noteq> 0" using assms by presburger+
  have e: "Suc (Suc (Suc (Suc g))) = g + 4" by simp
  show ?thesis
    using n
    by (simp add: cycling_random_def Let_def case_prod_beta py_round_def round_half_even_def e)
qed

lemma cycling_step_c:
  assumes "g mod 3 = 2"
  shows "comparables_loop cycling_random 7000 11000 ''Santiago'' 60 2 (Suc k) g
   = (RentComparable_init 483000 69 ''Santiago'' 1 1 None
        # fst (comparables_loop cycling_random 7000 11000 ''Santiago'' 60 2 k (g + 4)),
      snd (comparables_loop cycling_random 7000 11000 ''Santiago'' 60 2 k (g + 4)))"
proof -
  have n: "(g + 1) mod 3 = 0" "g mod 3 \<noteq> 0" using assms by presburger+
  have e: "Suc (Suc (Suc (Suc g))) = g + 4" by simp
  show ?thesis
    using n
    by (simp add: cycling_random_def Let_def case_prod_beta py_round_def round_half_even_def e)
qed

lemma cycling_state:
  "snd (comparables_loop cycling_random lo hi com s d k g) = g + 4 * k"
  by (induction k arbitrary: g) (simp_all add: cycling_random_def Let_def case_prod_beta)

lemma comparables_fst_numeral:
  "fst (comparables_loop R lo hi com s d (numeral n) g)
   = fst (comparables_loop R lo hi com s d (Suc (pred_numeral n)) g)"
  by (simp only: comparables_loop_numeral)

lemma cycling_fst_a:
  "g mod 3 = 0 \<Longrightarrow>
   fst (comparables_loop cycling_random 7000 11000 ''Santiago'' 60 2 (numeral n) g)
   = RentComparable_init 561000 51 ''Santiago'' 1 1 None
       # fst (comparables_loop cycling_random 7000 11000 ''Santiago'' 60 2 (pred_numeral n) (g + 4))"
  unfolding comparables_fst_numeral by (simp only: cycling_step_a fst_conv)

lemma cycling_fst_b:
  "g mod 3 = 1 \<Longrightarrow>
   fst (comparables_loop cycling_random 7000 11000 ''Santiago'' 60 2 (numeral n) g)
   = RentComparable_init 759000 69 ''Santiago'' 1 1 None
       # fst (comparables_loop cycling_random 7000 11000 ''Santiago'' 60 2 (pred_numeral n) (g + 4))"
  unfolding comparables_fst_numeral by (simp only: cycling_step_b fst_conv)

lemma cycling_fst_c:
  "g mod 3 = 2 \<Longrightarrow>
   fst (comparables_loop cycling_random 7000 11000 ''Santiago'' 60 2 (numeral n) g)
   = RentComparable_init 483000 69 ''Santiago'' 1 1 None
       # fst (comparables_loop cycling_random 7000 11000 ''Santiago'' 60 2 (pred_numeral n) (g + 4))"
  unfolding comparables_fst_numeral by (simp only: cycling_step_c fst_conv)

lemma cycling_generated:
  "comparables_loop cycling_random 7000 11000 ''Santiago'' 60 2 15 0 = (cycling_comparables, 60)"
proof -
  have m: "(0::nat) mod 3 = 0" "(4::nat) mod 3 = 1" "(8::nat) mod 3 = 2"
    "(12::nat) mod 3 = 0" "(16::nat) mod 3 = 1" "(20::nat) mod 3 = 2"
    "(24::nat) mod 3 = 0" "(28::nat) mod 3 = 1" "(32::nat) mod 3 = 2"
    "(36::nat) mod 3 = 0" "(40::nat) mod 3 = 1" "(44::nat) mod 3 = 2"
    "(48::nat) mod 3 = 0" "(52::nat) mod 3 = 1" "(56::nat) mod 3 = 2"
    by simp_all
  have f: "fst (comparables_loop cycling_random 7000 11000 ''Santiago'' 60 2 15 0)
         = cycling_comparables"
    by (simp add: cycling_fst_a cycling_fst_b cycling_fst_c cycling_step_c [of 56 0] m
        cycling_comparables_def cycling_samples_def del: comparables_loop.simps(2))
  have g: "snd (comparables_loop cycling_random 7000 11000 ''Santiago'' 60 2 15 0) = 60"
    by (simp add: cycling_state)
  show ?thesis
    using f g by (metis prod.collapse)
qed

lemma cycling_generate:
  "generate_synthetic_comparables cycling_random AVG_RENT_PER_COMMUNE g ''Santiago'' 60 2 15
   = Inr (cycling_comparables, 60)"
proof -
  have "generate_synthetic_comparables cycling_random AVG_RENT_PER_COMMUNE g ''Santiago'' 60 2 15
      = Inr (comparables_loop cycling_random 7000 11000 ''Santiago'' 60 2 15 0)"
    by (simp add: generate_synthetic_comparables_def AVG_RENT_PER_COMMUNE_def cycling_random_def)
  then show ?thesis by (simp only: cycling_generated)
qed

lemma cycling_prices:
  "map rc_precio_clp cycling_comparables
   = [561000, 759000, 483000, 561000, 759000, 483000, 561000, 759000, 483000,
      561000, 759000, 483000, 561000, 759000, 483000]"
  by (simp add: cycling_comparables_def cycling_samples_def RentComparable_init_def)

lemma cycling_deviation:
  "79000 \<le> sqrt (101220000000 / 7)"
  by (rule real_le_rsqrt) simp

lemma cycling_kept:
  "remove_outliers cycling_comparables 2 = Inr cycling_comparables"
proof -
  define s :: real where "s = sqrt (101220000000 / 7)"
  have s: "79000 \<le> s" unfolding s_def by (rule cycling_deviation)
  have len: "length cycling_comparables = 15"
    by (simp add: cycling_comparables_def cycling_samples_def)
  have mean: "mean (map rc_precio_clp cycling_comparables) = Inr 601000"
    by (simp add: cycling_prices mean_def)
  have stdev: "stdev (map rc_precio_clp cycling_comparables) = Inr s"
    by (simp add: cycling_prices stdev_def s_def)
  have keep: "filter (\<lambda>c. 601000 - s * 2 \<le> rc_precio_clp c \<and> rc_precio_clp c \<le> 601000 + s * 2)
                cycling_comparables = cycling_comparables"
    using s by (simp add: cycling_comparables_def cycling_samples_def RentComparable_init_def)
  have nz: "s \<noteq> 0" using s by simp
  show ?thesis
    using nz
    by (simp add: remove_outliers_def len mean stdev bind_err_def keep)
qed

lemma outlier_removed:
  "remove_outliers (replicate 8 usual_comparable @ [outlier_comparable]) 2
   = Inr (replicate 8 usual_comparable)"
proof -
  define prices :: "real list" where "prices = replicate 8 300000 @ [1200000]"
  have prices: "prices
      = [300000, 300000, 300000, 300000, 300000, 300000, 300000, 300000, 1200000]"
    by (simp add: prices_def numeral_eq_Suc)
  have sq: "sqrt 90000000000 = (300000::real)"
    by (rule real_sqrt_unique) simp_all
  have mean: "mean prices = Inr 400000"
    by (simp only: prices) (simp add: mean_def)
  have stdev: "stdev prices = Inr 300000"
    by (simp only: prices) (simp add: stdev_def sq)
  have len: "length prices = 9"
    by (simp add: prices)
  have u: "rc_precio_clp usual_comparable = 300000" "rc_precio_clp outlier_comparable = 1200000"
    by (simp_all add: usual_comparable_def outlier_comparable_def RentComparable_init_def)
  show ?thesis
    by (simp add: remove_outliers_def Let_def u prices_def [symmetric] len mean stdev
        bind_err_def)
qed

lemma analyze_market_rent_returns:
  assumes gen: "generate_synthetic_comparables R rent_data g com superficie dorms 15
                  = Inr (cs, g')"
    and flt: "remove_outliers cs 2 = Inr ys"
    and ne: "ys \<noteq> []"
  shows "\<exists>res. analyze_market_rent R rent_data g com superficie dorms banos use_scraping
                 = Inr (res, g') \<and> comparables res = ys"
proof -
  have fa: "fst (filtered_or_all ys cs) = ys" using ne by (simp add: filtered_or_all_def)
  have a: "\<And>e. mean (map rc_precio_clp ys) \<noteq> Inl e" using ne by (simp add: mean_def)
  have "sort (map rc_precio_clp ys) \<noteq> []" using ne by (metis length_sort length_0_conv map_is_Nil_conv)
  then have b: "\<And>e. median (map rc_precio_clp ys) \<noteq> Inl e" by (simp add: median_def Let_def)
  have c: "\<And>e. py_min (map rc_precio_clp ys) \<noteq> Inl e"
    using ne by (cases ys) (simp_all add: py_min_def)
  have d: "\<And>e. py_max (map rc_precio_clp ys) \<noteq> Inl e"
    using ne by (cases ys) (simp_all add: py_max_def)
  have e: "\<And>e. Suc 0 < length ys \<Longrightarrow> stdev (map rc_precio_clp ys) \<noteq> Inl e"
    by (simp add: stdev_def Let_def)
  have f: "\<And>e. mean (map rc_precio_m2 ys) \<noteq> Inl e" using ne by (simp add: mean_def)
  show ?thesis
  proof (cases "analyze_market_rent R rent_data g com superficie dorms banos use_scraping")
    case (Inl err)
    then have False
      using a b c d e f ne
      by (auto simp: analyze_market_rent_def gen flt bind_err_def fa Let_def
          split: sum.splits if_splits)
    then show ?thesis ..
  next
    case (Inr r)
    then have "r = (fst r, g') \<and> comparables (fst r) = ys"
      by (auto simp: analyze_market_rent_def gen flt bind_err_def fa Let_def
          split: sum.splits if_splits)
    with Inr show ?thesis by metis
  qed
qed

text \<open>
  C9. With the default factor 2.0, \<^verbatim>\<open>_remove_outliers\<close> returns a non-empty list for
  every non-empty list of comparables. Hence the list that \<^verbatim>\<open>analyze_market_rent\<close>
  filters (15 generated comparables) stays non-empty, the branch that reverts to the
  unfiltered list is not taken, and the comparables of the analysis are the filtered ones.
\<close>

theorem remove_outliers_never_empties:
  "(comps \<noteq> [] \<longrightarrow> (\<exists>ys. remove_outliers comps 2 = Inr ys \<and> ys \<noteq> []))
   \<and> (generate_synthetic_comparables R rent_data g com superficie dorms 15 = Inr (generated, g')
        \<longrightarrow> (\<exists>ys. remove_outliers generated 2 = Inr ys \<and> ys \<noteq> []
                 \<and> filtered_or_all ys generated = (ys, False)))
   \<and> (analyze_market_rent R rent_data g com superficie dorms banos use_scraping = Inr (res, g'')
        \<longrightarrow> (\<exists>cs. generate_synthetic_comparables R rent_data g com superficie dorms 15
                      = Inr (cs, g'')
                 \<and> remove_outliers cs 2 = Inr (comparables res)))"
proof (intro conjI impI)
  assume "comps \<noteq> []"
  then show "\<exists>ys. remove_outliers comps 2 = Inr ys \<and> ys \<noteq> []"
    by (rule remove_outliers_nonempty)
next
  assume "generate_synthetic_comparables R rent_data g com superficie dorms 15 = Inr (generated, g')"
  then have "generated \<noteq> []" by (rule generated_nonempty)
  then obtain ys where "remove_outliers generated 2 = Inr ys" "ys \<noteq> []"
    using remove_outliers_nonempty by blast
  then show "\<exists>ys. remove_outliers generated 2 = Inr ys \<and> ys \<noteq> []
                 \<and> filtered_or_all ys generated = (ys, False)"
    by (auto simp: filtered_or_all_def)
next
  assume a: "analyze_market_rent R rent_data g com superficie dorms banos use_scraping = Inr (res, g'')"
  then obtain cs g1 where gen:
    "generate_synthetic_comparables R rent_data g com superficie dorms 15 = Inr (cs, g1)"
    by (auto simp: analyze_market_rent_def bind_err_def split: sum.splits)
  then have "cs \<noteq> []" by (rule generated_nonempty)
  then obtain ys where ys: "remove_outliers cs 2 = Inr ys" "ys \<noteq> []"
    using remove_outliers_nonempty by blast
  have "g1 = g'' \<and> comparables res = ys"
    using a gen ys
    by (auto simp: analyze_market_rent_def bind_err_def filtered_or_all_def Let_def
        split: sum.splits if_splits)
  with gen ys show "\<exists>cs. generate_synthetic_comparables R rent_data g com superficie dorms 15
                      = Inr (cs, g'')
                 \<and> remove_outliers cs 2 = Inr (comparables res)"
    by auto
qed

theorem remove_outliers_never_empties_witness:
  "replicate 8 usual_comparable @ [outlier_comparable] \<noteq> []
   \<and> remove_outliers (replicate 8 usual_comparable @ [outlier_comparable]) 2
       = Inr (replicate 8 usual_comparable)
   \<and> replicate 8 usual_comparable \<noteq> []
   \<and> generate_synthetic_comparables cycling_random AVG_RENT_PER_COMMUNE 7 ''Santiago'' 60 2 15
       = Inr (cycling_comparables, 60)
   \<and> remove_outliers cycling_comparables 2 = Inr cycling_comparables
   \<and> cycling_comparables \<noteq> []
   \<and> filtered_or_all cycling_comparables cycling_comparables = (cycling_comparables, False)
   \<and> (\<exists>res. analyze_market_rent cycling_random AVG_RENT_PER_COMMUNE 7 ''Santiago'' 60 2 1 False
                = Inr (res, 60)
            \<and> comparables res = cycling_comparables)"
proof -
  have ne: "cycling_comparables \<noteq> []"
    by (simp add: cycling_comparables_def cycling_samples_def)
  obtain res where res:
    "analyze_market_rent cycling_random AVG_RENT_PER_COMMUNE 7 ''Santiago'' 60 2 1 False
       = Inr (res, 60)"
    "comparables res = cycling_comparables"
    using analyze_market_rent_returns [OF cycling_generate cycling_kept ne] by blast
  show ?thesis
    using res ne outlier_removed cycling_kept cycling_generate [of 7]
      remove_outliers_never_empties
        [of "replicate 8 usual_comparable @ [outlier_comparable]" cycling_random
            AVG_RENT_PER_COMMUNE 7 "''Santiago''" 60 2 cycling_comparables 60 1 False res 60]
    by auto
qed

section \<open>Location analysis\<close>

lemma haversine_radicand:
  "0 \<le> haversine_a lat1 lon1 lat2 lon2 \<and> haversine_a lat1 lon1 lat2 lon2 \<le> 1"
proof -
  define p where "p = radians lat1"
  define q where "q = radians lat2"
  define S where "S = (sin ((q - p) / 2)) ^ 2"
  define T where "T = (sin (radians (lon2 - lon1) / 2)) ^ 2"
  define C where "C = cos p * cos q"
  have d: "radians (lat2 - lat1) = q - p"
    by (simp add: radians_def p_def q_def algebra_simps diff_divide_distrib)
  have a: "haversine_a lat1 lon1 lat2 lon2 = S + C * T"
    by (simp add: haversine_a_def Let_def d S_def T_def C_def p_def q_def)
  have T: "0 \<le> T" "T \<le> 1"
    unfolding T_def by (simp_all add: abs_square_le_1 [THEN iffD2] power2_eq_square [symmetric])
  have S: "0 \<le> S" "S \<le> 1"
    unfolding S_def by (simp_all add: abs_square_le_1 [THEN iffD2])
  have "cos (2 * ((q - p) / 2)) = 1 - 2 * (sin ((q - p) / 2)) ^ 2"
    by (rule cos_double_sin)
  moreover have "2 * ((q - p) / 2) = q - p" by simp
  ultimately have "cos (q - p) = 1 - 2 * S"
    unfolding S_def by metis
  moreover have "cos (q - p) = C + sin q * sin p"
    by (simp add: cos_diff C_def mult.commute)
  moreover have "cos (q + p) = C - sin q * sin p"
    by (simp add: cos_add C_def mult.commute)
  ultimately have "S + C = (1 + cos (q + p)) / 2" by simp
  moreover define c where "c = cos (q + p)"
  ultimately have SC: "S + C = (1 + c) / 2" by simp
  have c: "- 1 \<le> c" "c \<le> 1"
    unfolding c_def by (rule cos_ge_minus_one, rule cos_le_one)
  have SC0: "0 \<le> S + C" using SC c by argo
  have SC1: "S + C \<le> 1" using SC c by argo
  have eq: "S + C * T = S * (1 - T) + (S + C) * T" by (simp add: algebra_simps)
  have a1: "0 \<le> S * (1 - T)" using S(1) T(2) by simp
  have a2: "0 \<le> (S + C) * T" using SC0 T(1) by (rule mult_nonneg_nonneg)
  have b1: "S * (1 - T) \<le> 1 * (1 - T)" using S(2) T(2) by (intro mult_right_mono) simp_all
  have b2: "(S + C) * T \<le> 1 * T" using SC1 T(1) by (intro mult_right_mono) simp_all
  have "0 \<le> S * (1 - T) + (S + C) * T" using a1 a2 by simp
  moreover have "S * (1 - T) + (S + C) * T \<le> 1" using b1 b2 by simp
  ultimately show ?thesis unfolding a eq by simp
qed

lemma analyze_at_invariant:
  "(has_metro_access (analyze_at stations la lo)
      \<longleftrightarrow> connectivity_level (analyze_at stations la lo) \<noteq> NONE)
   \<and> (has_metro_access (analyze_at stations la lo)
      \<longleftrightarrow> dist_less (distance_meters (analyze_at stations la lo)) 1500)"
proof -
  define d where "d = distance_meters (analyze_at stations la lo)"
  have h: "has_metro_access (analyze_at stations la lo) = dist_less d 1500"
    by (simp add: analyze_at_def Let_def d_def)
  have c: "connectivity_level (analyze_at stations la lo)
         = (if dist_less d 500 then HIGH else if dist_less d 800 then MEDIUM
            else if dist_less d 1500 then LOW else NONE)"
    by (simp add: analyze_at_def Let_def d_def)
  have m: "dist_less d 500 \<Longrightarrow> dist_less d 1500" "dist_less d 800 \<Longrightarrow> dist_less d 1500"
    by (cases d; simp)+
  show ?thesis
    unfolding d_def [symmetric] h c using m by auto
qed

lemma no_coordinates_invariant:
  "(has_metro_access no_coordinates_result \<longleftrightarrow> connectivity_level no_coordinates_result \<noteq> NONE)
   \<and> (has_metro_access no_coordinates_result
      \<longleftrightarrow> dist_less (distance_meters no_coordinates_result) 1500)"
  by (simp add: no_coordinates_result_def)

lemma analyze_cases:
  "analyze str_lower stations table lat lon com = no_coordinates_result
   \<or> (\<exists>la lo. analyze str_lower stations table lat lon com = analyze_at stations la lo)"
  by (auto simp: analyze_def split: option.splits prod.splits)

lemma analyze_unresolved:
  assumes "lat = None \<or> lon = None"
    and "com = None \<or> com = Some [] \<or> (\<exists>c. com = Some c \<and> get_coordinates_for_comuna str_lower table c = None)"
  shows "analyze str_lower stations table lat lon com = no_coordinates_result"
  using assms by (auto simp: analyze_def split: option.splits prod.splits)

lemma names_lowered:
  "latin_lower ''Las Condes'' = ''las condes''"
  "latin_lower ''Vitacura'' = ''vitacura''"
  "latin_lower ''Lo Barnechea'' = ''lo barnechea''"
  "latin_lower ''Providencia'' = ''providencia''"
  "latin_lower ''Atlantis'' = ''atlantis''"
  by (simp_all add: lower_char_def less_eq_char_def char_of_def bit_Suc_0_iff)

lemma nunoa_lowered:
  "latin_lower [char_of (195::nat), char_of (145::nat), CHR ''u'', char_of (195::nat),
                char_of (177::nat), CHR ''o'', CHR ''a''] = nunoa_small"
  by (simp add: nunoa_small_def lower_char_def less_eq_char_def char_of_def bit_Suc_0_iff)

lemma nunoa_small_lowered: "latin_lower nunoa_small = nunoa_small"
  by (simp add: nunoa_small_def lower_char_def less_eq_char_def char_of_def bit_Suc_0_iff)


lemma nunoa_not_key: "map_of COMMUNE_COORDINATES_head nunoa_small = None"
  by (simp add: COMMUNE_COORDINATES_head_def nunoa_small_def char_of_def bit_Suc_0_iff)

lemma atlantis_not_key: "map_of COMMUNE_COORDINATES_head ''Atlantis'' = None"
  by (simp add: COMMUNE_COORDINATES_head_def char_of_def bit_Suc_0_iff)

lemma nunoa_no_match:
  "\<not> sublist ''las condes'' nunoa_small" "\<not> sublist nunoa_small ''las condes''"
  "\<not> sublist ''vitacura'' nunoa_small" "\<not> sublist nunoa_small ''vitacura''"
  "\<not> sublist ''lo barnechea'' nunoa_small" "\<not> sublist nunoa_small ''lo barnechea''"
  "\<not> sublist ''providencia'' nunoa_small" "\<not> sublist nunoa_small ''providencia''"
  by (simp_all add: nunoa_small_def sublist_code(3) char_of_def bit_Suc_0_iff)

lemma atlantis_no_match:
  "\<not> sublist ''las condes'' ''atlantis''" "\<not> sublist ''atlantis'' ''las condes''"
  "\<not> sublist ''vitacura'' ''atlantis''" "\<not> sublist ''atlantis'' ''vitacura''"
  "\<not> sublist ''lo barnechea'' ''atlantis''" "\<not> sublist ''atlantis'' ''lo barnechea''"
  "\<not> sublist ''providencia'' ''atlantis''" "\<not> sublist ''atlantis'' ''providencia''"
  "\<not> sublist nunoa_small ''atlantis''" "\<not> sublist ''atlantis'' nunoa_small"
  by (simp_all add: nunoa_small_def sublist_code(3) char_of_def bit_Suc_0_iff)

lemma nunoa_found:
  "get_coordinates_for_comuna latin_lower COMMUNE_COORDINATES_head nunoa_small
   = Some (- 334560 / 10000, - 705970 / 10000)"
  unfolding get_coordinates_for_comuna_def nunoa_not_key
  by (simp add: COMMUNE_COORDINATES_head_def Let_def nunoa_small_lowered names_lowered
      nunoa_lowered py_in_def nunoa_no_match del: latin_lower.simps)

lemma atlantis_unknown:
  "get_coordinates_for_comuna latin_lower COMMUNE_COORDINATES_head ''Atlantis'' = None"
  unfolding get_coordinates_for_comuna_def atlantis_not_key
  by (simp add: COMMUNE_COORDINATES_head_def Let_def names_lowered nunoa_lowered py_in_def
      atlantis_no_match del: latin_lower.simps)

lemma haversine_same_point: "haversine_distance la lo la lo = 0"
  by (simp add: haversine_distance_def haversine_a_def Let_def radians_def py_atan2_def)

lemma analyze_nunoa:
  "analyze latin_lower baquedano COMMUNE_COORDINATES_head None None (Some nunoa_small)
   = analyze_at baquedano (- 334560 / 10000) (- 705970 / 10000)"
proof -
  have "nunoa_small \<noteq> []" by (simp add: nunoa_small_def)
  then show ?thesis by (simp add: analyze_def nunoa_found)
qed

text \<open>
  C10. Every result of \<^verbatim>\<open>LocationAnalyzer.analyze\<close> satisfies
  \<^verbatim>\<open>has_metro_access\<close> = (\<^verbatim>\<open>connectivity_level\<close> is not \<^verbatim>\<open>NONE\<close>) = (the distance to
  the nearest station is below 1500 metres). When the location cannot be resolved (a
  coordinate is missing and the commune is absent, empty or unknown to the table), the
  distance is infinite, there is no nearest station, the lists of nearby stations and of
  lines are empty and the walking time is 0.
\<close>

theorem analyze_metro_access_invariant:
  "(has_metro_access (analyze str_lower stations table lat lon com)
      \<longleftrightarrow> connectivity_level (analyze str_lower stations table lat lon com) \<noteq> NONE)
   \<and> (has_metro_access (analyze str_lower stations table lat lon com)
      \<longleftrightarrow> dist_less (distance_meters (analyze str_lower stations table lat lon com)) 1500)
   \<and> ((lat = None \<or> lon = None)
        \<and> (com = None \<or> com = Some []
             \<or> (\<exists>c. com = Some c \<and> get_coordinates_for_comuna str_lower table c = None))
      \<longrightarrow> distance_meters (analyze str_lower stations table lat lon com) = Infinite
          \<and> nearby_stations (analyze str_lower stations table lat lon com) = []
          \<and> metro_lines_nearby (analyze str_lower stations table lat lon com) = []
          \<and> walking_time_minutes (analyze str_lower stations table lat lon com) = 0
          \<and> nearest_station (analyze str_lower stations table lat lon com) = None
          \<and> connectivity_level (analyze str_lower stations table lat lon com) = NONE
          \<and> \<not> has_metro_access (analyze str_lower stations table lat lon com))"
proof -
  consider (none) "analyze str_lower stations table lat lon com = no_coordinates_result"
    | (at) la lo where "analyze str_lower stations table lat lon com = analyze_at stations la lo"
    using analyze_cases [of str_lower stations table lat lon com] by blast
  then have inv: "(has_metro_access (analyze str_lower stations table lat lon com)
      \<longleftrightarrow> connectivity_level (analyze str_lower stations table lat lon com) \<noteq> NONE)
   \<and> (has_metro_access (analyze str_lower stations table lat lon com)
      \<longleftrightarrow> dist_less (distance_meters (analyze str_lower stations table lat lon com)) 1500)"
  proof cases
    case none
    show ?thesis unfolding none by (rule no_coordinates_invariant)
  next
    case at
    show ?thesis unfolding at by (rule analyze_at_invariant)
  qed
  have un: "analyze str_lower stations table lat lon com = no_coordinates_result"
    if "lat = None \<or> lon = None"
      "com = None \<or> com = Some [] \<or> (\<exists>c. com = Some c \<and> get_coordinates_for_comuna str_lower table c = None)"
    using that by (rule analyze_unresolved)
  show ?thesis
    using inv un by (auto simp: no_coordinates_result_def)
qed

theorem analyze_metro_access_invariant_witness:
  "distance_meters (analyze latin_lower baquedano COMMUNE_COORDINATES_head None None
                      (Some ''Atlantis'')) = Infinite
   \<and> nearby_stations (analyze latin_lower baquedano COMMUNE_COORDINATES_head None None
                        (Some ''Atlantis'')) = []
   \<and> nearest_station (analyze latin_lower baquedano COMMUNE_COORDINATES_head None None
                        (Some ''Atlantis'')) = None
   \<and> \<not> has_metro_access (analyze latin_lower baquedano COMMUNE_COORDINATES_head None None
                            (Some ''Atlantis''))
   \<and> get_coordinates_for_comuna latin_lower COMMUNE_COORDINATES_head nunoa_small
       = Some (- 334560 / 10000, - 705970 / 10000)
   \<and> distance_meters (analyze latin_lower baquedano COMMUNE_COORDINATES_head None None
                        (Some nunoa_small)) \<noteq> Infinite
   \<and> nearest_station (analyze latin_lower baquedano COMMUNE_COORDINATES_head None None
                        (Some nunoa_small)) \<noteq> None
   \<and> has_metro_access (analyze latin_lower baquedano COMMUNE_COORDINATES_head None None
                          (Some nunoa_small))
       = (connectivity_level (analyze latin_lower baquedano COMMUNE_COORDINATES_head None None
                                (Some nunoa_small)) \<noteq> NONE)
   \<and> has_metro_access (analyze latin_lower baquedano COMMUNE_COORDINATES_head
                         (Some (- 334375 / 10000)) (Some (- 706350 / 10000)) None)
   \<and> connectivity_level (analyze latin_lower baquedano COMMUNE_COORDINATES_head
                            (Some (- 334375 / 10000)) (Some (- 706350 / 10000)) None) = HIGH"
proof -
  have near: "distance_meters (analyze_at baquedano (- 334560 / 10000) (- 705970 / 10000))
                \<noteq> Infinite"
    "nearest_station (analyze_at baquedano (- 334560 / 10000) (- 705970 / 10000)) \<noteq> None"
    by (simp_all add: analyze_at_def baquedano_def Let_def)
  have same: "has_metro_access (analyze latin_lower baquedano COMMUNE_COORDINATES_head
                         (Some (- 334375 / 10000)) (Some (- 706350 / 10000)) None)"
    "connectivity_level (analyze latin_lower baquedano COMMUNE_COORDINATES_head
                            (Some (- 334375 / 10000)) (Some (- 706350 / 10000)) None) = HIGH"
    by (simp_all add: analyze_def analyze_at_def baquedano_def Let_def haversine_same_point)
  show ?thesis
    using near same atlantis_unknown nunoa_found
      analyze_metro_access_invariant
        [of latin_lower baquedano COMMUNE_COORDINATES_head None None "Some ''Atlantis''"]
      analyze_metro_access_invariant
        [of latin_lower baquedano COMMUNE_COORDINATES_head None None "Some nunoa_small"]
    by (simp add: analyze_nunoa)
qed

end
